theory Spec2Isabelle
  imports Main "HOL-Library.Word"
begin

unbundle bit_operations_syntax

section \<open>The XFS inode scanner (xfs\_inode\_scanner.py)\<close>

text \<open>
  A Python \<open>bytes\<close> value is a list of 8-bit words. The image file is represented by its
  contents: every read of the source is preceded by a \<open>seek\<close> to an absolute offset, so
  \<open>f.seek(o); f.read(n)\<close> is \<open>read_at data o n\<close>, which is shorter than \<open>n\<close> (possibly
  empty) near and past the end of the file, as a Python read is. A slice \<open>b[i:j]\<close> with
  \<open>0 \<le> i \<le> j\<close> is \<open>slice b i j\<close>; it never raises and is cut at the end of \<open>b\<close>.
\<close>

type_synonym byte = "8 word"

definition read_at :: "byte list \<Rightarrow> nat \<Rightarrow> nat \<Rightarrow> byte list" where
  "read_at data offset n = take n (drop offset data)"

definition slice :: "'a list \<Rightarrow> nat \<Rightarrow> nat \<Rightarrow> 'a list" where
  "slice b i j = take (j - i) (drop i b)"

subsection \<open>Constants\<close>

definition XFS_SUPERBLOCK_OFFSET :: nat where
  "XFS_SUPERBLOCK_OFFSET = 0"

definition XFS_SUPERBLOCK_MAGIC :: "byte list" where
  "XFS_SUPERBLOCK_MAGIC = [0x58, 0x46, 0x53, 0x42]"

definition INODE_MAGIC :: "byte list" where
  "INODE_MAGIC = [0x49, 0x4E]"

definition INODE_SIZE :: nat where
  "INODE_SIZE = 512"

definition FILE_TYPES :: "nat \<Rightarrow> string option" where
  "FILE_TYPES = map_of
     [(0x1, ''FIFO''),
      (0x2, ''Character Device''),
      (0x4, ''Directory''),
      (0x6, ''Block Device''),
      (0x8, ''Regular File''),
      (0xA, ''Symlink''),
      (0xC, ''Socket'')]"

subsection \<open>Superblock detection\<close>

definition detect_xfs_magic :: "byte list \<Rightarrow> bool" where
  "detect_xfs_magic f = (read_at f XFS_SUPERBLOCK_OFFSET 4 = XFS_SUPERBLOCK_MAGIC)"

subsection \<open>Inode scan\<close>

text \<open>
  The scanned record is the dictionary built in \<open>scan_and_classify_inodes\<close>. All its
  values are non-negative: an offset divided by 512, a nibble, and three unsigned
  32-bit fields.
\<close>

record inode_rec =
  inode :: nat
  type_code :: nat
  atime :: nat
  mtime :: nat
  ctime :: nat

definition parse_file_type :: "byte \<Rightarrow> nat" where
  "parse_file_type mode_byte = unat ((drop_bit 4 mode_byte) AND 0xF)"

text \<open>
  \<open>struct.unpack(">I", b)\<close> raises \<open>struct.error\<close> unless \<open>b\<close> has exactly four bytes;
  otherwise it is the big-endian value.
\<close>

definition from_bytes_big :: "byte list \<Rightarrow> nat" where
  "from_bytes_big b = foldl (\<lambda>acc x. acc * 256 + unat x) 0 b"

definition unpack_be32 :: "byte list \<Rightarrow> nat option" where
  "unpack_be32 b = (if length b = 4 then Some (from_bytes_big b) else None)"

text \<open>The bare \<open>except\<close> of \<open>parse_times\<close> turns a failure of any of the three into zeros.\<close>

definition parse_times :: "byte list \<Rightarrow> nat \<times> nat \<times> nat" where
  "parse_times block =
     (case unpack_be32 (slice block 32 36) of
        None \<Rightarrow> (0, 0, 0)
      | Some a \<Rightarrow>
         (case unpack_be32 (slice block 40 44) of
            None \<Rightarrow> (0, 0, 0)
          | Some m \<Rightarrow>
             (case unpack_be32 (slice block 48 52) of
                None \<Rightarrow> (0, 0, 0)
              | Some c \<Rightarrow> (a, m, c))))"

text \<open>The body of the \<open>if block[:2] == INODE_MAGIC\<close> branch: the record of a matched window.\<close>

definition make_inode :: "nat \<Rightarrow> byte list \<Rightarrow> inode_rec" where
  "make_inode offset block =
     (let mode_byte = block ! 2;
          tc = parse_file_type mode_byte;
          (a, m, c) = parse_times block;
          inode_number = offset div INODE_SIZE
      in \<lparr>inode = inode_number, type_code = tc, atime = a, mtime = m, ctime = c\<rparr>)"

text \<open>
  The \<open>while offset < filesize\<close> loop, with the list \<open>inodes\<close> it appends to. \<open>block[2]\<close> is
  read only when the block has at least four bytes, so it is in range.
\<close>

function scan_loop :: "byte list \<Rightarrow> nat \<Rightarrow> nat \<Rightarrow> inode_rec list \<Rightarrow> inode_rec list" where
  "scan_loop f filesize offset inodes =
     (if offset < filesize then
        (let block = read_at f offset INODE_SIZE in
         if length block < 4 then inodes
         else if slice block 0 2 = INODE_MAGIC
              then scan_loop f filesize (offset + INODE_SIZE) (inodes @ [make_inode offset block])
              else scan_loop f filesize (offset + INODE_SIZE) inodes)
      else inodes)"
  by pat_completeness auto
termination
  by (relation "measure (\<lambda>(f, filesize, offset, inodes). filesize - offset)")
     (auto simp: INODE_SIZE_def)

declare scan_loop.simps [simp del]

definition scan_and_classify_inodes :: "byte list \<Rightarrow> nat \<Rightarrow> inode_rec list" where
  "scan_and_classify_inodes f filesize = scan_loop f filesize 0 []"

subsection \<open>Classification\<close>

definition has_times :: "inode_rec \<Rightarrow> bool" where
  "has_times r = (atime r \<noteq> 0 \<and> mtime r \<noteq> 0 \<and> ctime r \<noteq> 0)"

text \<open>\<open>f"{n:X}"\<close>: upper-case hexadecimal without padding.\<close>

definition hex_digit :: "nat \<Rightarrow> char" where
  "hex_digit d = (''0123456789ABCDEF'') ! d"

fun format_X :: "nat \<Rightarrow> string" where
  "format_X n = (if n < 16 then [hex_digit n] else format_X (n div 16) @ [hex_digit (n mod 16)])"

declare format_X.simps [simp del]

text \<open>
  The "Determine file type" block of \<open>classify_and_print\<close>, for the record at index \<open>i\<close> of
  \<open>inodes\<close>. The neighbours are read only behind the guards \<open>i > 0\<close> and
  \<open>i + 1 < len(inodes)\<close>.
\<close>

definition file_type_of :: "inode_rec list \<Rightarrow> nat \<Rightarrow> string" where
  "file_type_of inodes i =
     (let r = inodes ! i in
      if inode r = 128 then ''Root Directory''
      else if type_code r = 0x0 then
        (let prev_known = (i > 0 \<and> FILE_TYPES (type_code (inodes ! (i - 1))) \<noteq> None);
             next_known = (i + 1 < length inodes \<and> FILE_TYPES (type_code (inodes ! (i + 1))) \<noteq> None)
         in if (prev_known \<or> next_known) \<and> has_times r
            then ''Probably Deleted File''
            else ''Unknown (0x0)'')
      else (case FILE_TYPES (type_code r) of
              Some name \<Rightarrow> name
            | None \<Rightarrow> ''Unknown (0x'' @ format_X (type_code r) @ '')''))"

subsection \<open>Exceptions and printed lines\<close>

text \<open>
  A Python \<open>str\<close> that comes from outside the program (the decoded output of the
  utility, and the names taken from it) is the list of its Unicode code points. The
  literals of the program itself are ASCII; \<open>ascii\<close> gives their code points.
\<close>

type_synonym py_str = "nat list"

definition ascii :: "string \<Rightarrow> py_str" where
  "ascii s = map of_char s"

text \<open>
  The exceptions the program can meet: \<open>OSError\<close> from \<open>open\<close>, \<open>FileNotFoundError\<close> and
  \<open>CalledProcessError\<close> from \<open>subprocess.check_output\<close>, \<open>UnicodeDecodeError\<close> from
  \<open>decode\<close>, \<open>ValueError\<close> from \<open>int\<close> (carrying the rejected literal).
\<close>

datatype py_exception =
    OSError string
  | FileNotFoundError string
  | CalledProcessError int
  | UnicodeDecodeError
  | ValueError py_str

text \<open>
  One constructor per \<open>print\<close> call of the source, carrying the values it interpolates.
  The time lines carry the epoch that \<open>format_time\<close> renders.
\<close>

datatype printed =
    Print_checking string
  | Print_not_xfs
  | Print_detected
  | Print_no_inodes
  | Print_error py_exception
  | Print_warning py_exception
  | Print_inode nat string py_str
  | Print_atime nat
  | Print_mtime nat
  | Print_ctime nat
  | Print_total nat
  | Print_sf_scanning
  | Print_sf_inode nat
  | Print_sf_offset nat
  | Print_sf_entries nat
  | Print_sf_none
  | Print_usage_error

subsection \<open>Name resolution (xfs\_ncheck)\<close>

text \<open>
  The builtins that \<open>parse_xfs_ncheck\<close> applies to the output, as CPython 3.11 computes
  them. \<open>str.strip()\<close> and \<open>str.split(None, 1)\<close> take for whitespace the code points for
  which \<open>str.isspace\<close> holds: the ASCII ones, which include the separators 0x1C to 0x1F,
  and those of Unicode 14.0.
\<close>

definition py_isspace :: "nat \<Rightarrow> bool" where
  "py_isspace c =
     ((9 \<le> c \<and> c \<le> 13) \<or> (28 \<le> c \<and> c \<le> 32) \<or> c = 0x85 \<or> c = 0xA0 \<or> c = 0x1680 \<or>
      (0x2000 \<le> c \<and> c \<le> 0x200A) \<or> c = 0x2028 \<or> c = 0x2029 \<or> c = 0x202F \<or>
      c = 0x205F \<or> c = 0x3000)"

definition py_strip :: "py_str \<Rightarrow> py_str" where
  "py_strip s = rev (dropWhile py_isspace (rev (dropWhile py_isspace s)))"

text \<open>\<open>s.split(c)\<close> for a separator of one character: it always has at least one part.\<close>

fun split_on :: "nat \<Rightarrow> py_str \<Rightarrow> py_str list" where
  "split_on c [] = [[]]"
| "split_on c (x # xs) =
     (if x = c then [] # split_on c xs
      else (case split_on c xs of
              l # ls \<Rightarrow> (x # l) # ls
            | [] \<Rightarrow> [[x]]))"

text \<open>
  \<open>s.split(None, 1)\<close>: leading whitespace is skipped, the first run of other characters
  is the first part, and what follows the whitespace after it, if anything, is the
  second part, with its trailing whitespace kept.
\<close>

definition py_split1 :: "py_str \<Rightarrow> py_str list" where
  "py_split1 s =
     (let s1 = dropWhile py_isspace s in
      if s1 = [] then []
      else (let tok = takeWhile (\<lambda>c. \<not> py_isspace c) s1;
                rest = dropWhile py_isspace (dropWhile (\<lambda>c. \<not> py_isspace c) s1)
            in if rest = [] then [tok] else [tok, rest]))"

text \<open>
  \<open>int(s)\<close> on a \<open>str\<close>. CPython first rewrites the string to ASCII: a code point below
  127 stays, any other whitespace becomes a space, any other decimal digit of Unicode
  becomes its ASCII digit, and anything else becomes a question mark, which no integer
  literal contains. The decimal digits of Unicode 14.0 are 66 runs of ten consecutive
  code points with the values 0 to 9; \<open>DECIMAL_RUNS\<close> lists where the runs start.
\<close>

definition DECIMAL_RUNS :: "nat list" where
  "DECIMAL_RUNS =
     [0x30, 0x660, 0x6F0, 0x7C0, 0x966, 0x9E6, 0xA66, 0xAE6,
      0xB66, 0xBE6, 0xC66, 0xCE6, 0xD66, 0xDE6, 0xE50, 0xED0,
      0xF20, 0x1040, 0x1090, 0x17E0, 0x1810, 0x1946, 0x19D0, 0x1A80,
      0x1A90, 0x1B50, 0x1BB0, 0x1C40, 0x1C50, 0xA620, 0xA8D0, 0xA900,
      0xA9D0, 0xA9F0, 0xAA50, 0xABF0, 0xFF10, 0x104A0, 0x10D30, 0x11066,
      0x110F0, 0x11136, 0x111D0, 0x112F0, 0x11450, 0x114D0, 0x11650, 0x116C0,
      0x11730, 0x118E0, 0x11950, 0x11C50, 0x11D50, 0x11DA0, 0x16A60, 0x16AC0,
      0x16B50, 0x1D7CE, 0x1D7D8, 0x1D7E2, 0x1D7EC, 0x1D7F6, 0x1E140, 0x1E2F0,
      0x1E950, 0x1FBF0]"

definition py_todecimal :: "nat \<Rightarrow> nat option" where
  "py_todecimal c =
     (case List.find (\<lambda>r. r \<le> c \<and> c < r + 10) DECIMAL_RUNS of
        Some r \<Rightarrow> Some (c - r)
      | None \<Rightarrow> None)"

definition to_ascii :: "nat \<Rightarrow> nat" where
  "to_ascii c =
     (if c < 127 then c
      else if py_isspace c then 0x20
      else (case py_todecimal c of
              Some d \<Rightarrow> 0x30 + d
            | None \<Rightarrow> 0x3F))"

text \<open>
  The ASCII text is then read as: whitespace of C (tab to carriage return, and space, so
  not 0x1C to 0x1F), an optional sign, a run of digits and underscores, whitespace of C,
  and the end. The run must have a digit, must neither begin nor end with an underscore
  nor have two in a row, and must not have more digits than \<open>sys.int_max_str_digits\<close>,
  which is 4300 unless the interpreter is started otherwise.
\<close>

definition c_isspace :: "nat \<Rightarrow> bool" where
  "c_isspace c = ((9 \<le> c \<and> c \<le> 13) \<or> c = 0x20)"

definition is_digit :: "nat \<Rightarrow> bool" where
  "is_digit c = (0x30 \<le> c \<and> c \<le> 0x39)"

definition int_max_str_digits :: nat where
  "int_max_str_digits = 4300"

fun no_double_underscore :: "py_str \<Rightarrow> bool" where
  "no_double_underscore (a # b # r) =
     (\<not> (a = 0x5F \<and> b = 0x5F) \<and> no_double_underscore (b # r))"
| "no_double_underscore r = True"

definition valid_digits :: "py_str \<Rightarrow> bool" where
  "valid_digits s =
     (s \<noteq> [] \<and> hd s \<noteq> 0x5F \<and> last s \<noteq> 0x5F \<and> no_double_underscore s \<and>
      length (filter is_digit s) \<le> int_max_str_digits)"

definition digits_value :: "py_str \<Rightarrow> nat" where
  "digits_value s = foldl (\<lambda>acc c. acc * 10 + (c - 0x30)) 0 (filter is_digit s)"

text \<open>\<open>None\<close> is the \<open>ValueError\<close>.\<close>

definition py_int :: "py_str \<Rightarrow> int option" where
  "py_int s =
     (let t = dropWhile c_isspace (map to_ascii s);
          (neg, u) =
            (case t of
               [] \<Rightarrow> (False, [])
             | c # r \<Rightarrow> if c = 0x2D then (True, r)
                        else if c = 0x2B then (False, r)
                        else (False, t));
          body = takeWhile (\<lambda>c. is_digit c \<or> c = 0x5F) u;
          rest = dropWhile c_isspace (dropWhile (\<lambda>c. is_digit c \<or> c = 0x5F) u)
      in if valid_digits body \<and> rest = []
         then Some (if neg then - int (digits_value body) else int (digits_value body))
         else None)"

text \<open>
  The \<open>for line in ...\<close> loop inside the \<open>try\<close>. The dictionary is updated in place, so the
  entries stored before an exception stay in it: the loop returns the dictionary together
  with the exception that ended it, if any.
\<close>

fun ncheck_loop :: "py_str list \<Rightarrow> (int \<Rightarrow> py_str option) \<Rightarrow> (int \<Rightarrow> py_str option) \<times> py_exception option" where
  "ncheck_loop [] name_map = (name_map, None)"
| "ncheck_loop (line # lines) name_map =
     (let parts = py_split1 (py_strip line) in
      if length parts = 2 then
        (case py_int (parts ! 0) of
           None \<Rightarrow> (name_map, Some (ValueError (parts ! 0)))
         | Some i \<Rightarrow> ncheck_loop lines (name_map(i \<mapsto> py_strip (parts ! 1))))
      else ncheck_loop lines name_map)"

text \<open>
  \<open>ncheck\<close> is the outcome of \<open>subprocess.check_output([...]).decode()\<close>: the exception it
  raised, or the decoded output. The result is the returned dictionary and the lines
  printed.
\<close>

definition parse_xfs_ncheck :: "py_exception + py_str \<Rightarrow> (int \<Rightarrow> py_str option) \<times> printed list" where
  "parse_xfs_ncheck ncheck =
     (case ncheck of
        Inl e \<Rightarrow> (Map.empty, [Print_warning e])
      | Inr output \<Rightarrow>
         (case ncheck_loop (split_on 0x0A (py_strip output)) Map.empty of
            (name_map, None) \<Rightarrow> (name_map, [])
          | (name_map, Some e) \<Rightarrow> (name_map, [Print_warning e])))"

subsection \<open>Report\<close>

text \<open>
  The \<open>for i, inode in enumerate(inodes)\<close> loop of \<open>classify_and_print\<close> over the indices
  still to visit, with the counter \<open>total\<close> (here \<open>total_n\<close>) and the lines printed so far.
\<close>

fun classify_loop ::
  "inode_rec list \<Rightarrow> (int \<Rightarrow> py_str option) \<Rightarrow> bool \<Rightarrow> bool \<Rightarrow> nat list \<Rightarrow> nat \<Rightarrow> printed list
     \<Rightarrow> nat \<times> printed list" where
  "classify_loop inodes name_map only_allocated only_deleted [] total_n out = (total_n, out)"
| "classify_loop inodes name_map only_allocated only_deleted (i # rest) total_n out =
     (let r = inodes ! i;
          inode_num = inode r;
          file_type = file_type_of inodes i
      in if only_allocated \<and> (type_code r = 0 \<or> \<not> has_times r)
         then classify_loop inodes name_map only_allocated only_deleted rest total_n out
         else if only_deleted \<and> file_type \<noteq> ''Probably Deleted File''
         then classify_loop inodes name_map only_allocated only_deleted rest total_n out
         else
           (let name = (if inode_num = 128 then ascii ''.''
                        else (case name_map (int inode_num) of
                                Some n \<Rightarrow> n
                              | None \<Rightarrow> ascii ''(unknown)''));
                times = (if has_times r
                         then [Print_atime (atime r), Print_mtime (mtime r), Print_ctime (ctime r)]
                         else [])
            in classify_loop inodes name_map only_allocated only_deleted rest (total_n + 1)
                 (out @ [Print_inode inode_num file_type name] @ times)))"

definition classify_and_print ::
  "inode_rec list \<Rightarrow> (int \<Rightarrow> py_str option) \<Rightarrow> bool \<Rightarrow> bool \<Rightarrow> printed list" where
  "classify_and_print inodes name_map only_allocated only_deleted =
     (case classify_loop inodes name_map only_allocated only_deleted [0..<length inodes] 0 [] of
        (total_n, out) \<Rightarrow> out @ [Print_total total_n])"

subsection \<open>Short-form directory scan\<close>

text \<open>The dictionary returned by \<open>parse_shortform_inode\<close>; its key \<open>offset\<close> is \<open>sf_offset\<close>.\<close>

record shortform_rec =
  inode_number :: nat
  sf_offset :: nat
  entry_count :: nat

definition parse_shortform_inode :: "byte list \<Rightarrow> nat \<Rightarrow> shortform_rec option" where
  "parse_shortform_inode data offset =
     (let window = slice data offset (offset + 256) in
      if length window < 256 \<or> slice window 0 2 \<noteq> [0x49, 0x4E] then None
      else (let num_entries = unat (window ! 176) in
            if num_entries = 0 then None
            else Some \<lparr>inode_number = from_bytes_big (slice window 152 160),
                       sf_offset = offset,
                       entry_count = num_entries\<rparr>))"

text \<open>
  One pass through the body of the \<open>while\<close> loop of \<open>scan_shortform_inodes\<close>, on the cursor
  \<open>offset\<close>, the counter \<open>found\<close> and the lines printed so far. \<open>offset += 256\<close> stands in
  the \<open>if data[offset:offset+2] == b"IN"\<close> branch after the inner \<open>if result\<close>, so it runs
  whatever \<open>result\<close> is.
\<close>

definition shortform_step :: "byte list \<Rightarrow> nat \<times> nat \<times> printed list \<Rightarrow> nat \<times> nat \<times> printed list" where
  "shortform_step data st =
     (case st of (offset, found, out) \<Rightarrow>
        if slice data offset (offset + 2) = [0x49, 0x4E] then
          (case parse_shortform_inode data offset of
             Some result \<Rightarrow>
               (offset + 256, found + 1,
                out @ [Print_sf_inode (inode_number result),
                       Print_sf_offset (sf_offset result),
                       Print_sf_entries (entry_count result)])
           | None \<Rightarrow> (offset + 256, found, out))
        else (offset + 16, found, out))"

text \<open>\<open>len(data) - 256\<close> is negative for a short buffer, so the guard is on integers.\<close>

function scan_shortform_loop :: "byte list \<Rightarrow> nat \<times> nat \<times> printed list \<Rightarrow> nat \<times> nat \<times> printed list" where
  "scan_shortform_loop data st =
     (if int (fst st) < int (length data) - 256
      then scan_shortform_loop data (shortform_step data st)
      else st)"
  by pat_completeness auto
termination
  by (relation "measure (\<lambda>(data, st). length data - fst st)")
     (auto simp: shortform_step_def split: prod.splits option.splits)

declare scan_shortform_loop.simps [simp del]

definition scan_shortform_inodes :: "byte list \<Rightarrow> printed list" where
  "scan_shortform_inodes data =
     (case scan_shortform_loop data (0, 0, [Print_sf_scanning]) of
        (offset, found, out) \<Rightarrow> if found = 0 then out @ [Print_sf_none] else out)"

subsection \<open>The program\<close>

text \<open>
  What the operating system lets the program do with the image: \<open>open(image_path, 'rb')\<close>
  raises; or the file opens and its first read (in \<open>detect_xfs_magic\<close>) raises; or the
  file opens and every read succeeds on its contents. \<open>ncheck\<close> is the outcome of the
  external utility, used only when the scan reaches it. The \<open>try\<close> of \<open>main\<close> encloses the
  \<open>open\<close> and everything after it; its handler prints the exception and returns.
\<close>

datatype image_access =
    Open_fails py_exception
  | Read_fails py_exception
  | Readable "byte list"

definition main ::
  "image_access \<Rightarrow> py_exception + py_str \<Rightarrow> string \<Rightarrow> bool \<Rightarrow> bool \<Rightarrow> bool \<Rightarrow> printed list" where
  "main img ncheck image_path only_allocated only_deleted shortform =
     (case img of
        Open_fails e \<Rightarrow> [Print_error e]
      | Read_fails e \<Rightarrow> [Print_checking image_path, Print_error e]
      | Readable f \<Rightarrow>
         [Print_checking image_path] @
         (if \<not> detect_xfs_magic f then [Print_not_xfs]
          else [Print_detected] @
            (if shortform then scan_shortform_inodes (read_at f 0 (length f))
             else (let filesize = length f;
                       inodes = scan_and_classify_inodes f filesize
                   in if inodes = [] then [Print_no_inodes]
                      else (case parse_xfs_ncheck ncheck of
                              (name_map, warned) \<Rightarrow>
                                warned @ classify_and_print inodes name_map only_allocated only_deleted)))))"

text \<open>
  The \<open>__main__\<close> block after argument parsing: the lines printed and the exit status.
  \<open>sys.exit(1)\<close> is called for conflicting flags only; otherwise the script runs to its
  end after \<open>main\<close> returns, which is exit status 0.
\<close>

definition run ::
  "image_access \<Rightarrow> py_exception + py_str \<Rightarrow> string \<Rightarrow> bool \<Rightarrow> bool \<Rightarrow> bool
     \<Rightarrow> printed list \<times> nat" where
  "run img ncheck image_path allocated deleted shortform =
     (if (of_bool allocated + of_bool deleted + of_bool shortform :: nat) > 1
      then ([Print_usage_error], 1)
      else (main img ncheck image_path allocated deleted shortform, 0))"

subsection \<open>Example images\<close>

text \<open>
  \<open>image_two\<close> has a full window with signature and type nibble 4, and a final window of
  four bytes with signature and type nibble 8. \<open>image_tiny_tail\<close> is the same with a final
  fragment of three bytes. \<open>image_short\<close> is a single window of 40 bytes: its first
  timestamp field is complete, the other two are not.
\<close>

definition image_two :: "byte list" where
  "image_two = [0x49, 0x4E, 0x40, 0x00] @ replicate 508 0 @ [0x49, 0x4E, 0x80, 0x00]"

definition image_short :: "byte list" where
  "image_short = [0x49, 0x4E, 0x80, 0x00] @ replicate 28 0 @ [0x00, 0x00, 0x00, 0x07] @ replicate 4 0"

definition image_tiny_tail :: "byte list" where
  "image_tiny_tail = [0x49, 0x4E, 0x40, 0x00] @ replicate 508 0 @ [0x49, 0x4E, 0x80]"

text \<open>
  Buffers for the short-form scan. \<open>buffer_zero_count\<close> has 300 bytes: the signature at
  offset 0 and an entry count of 0. \<open>buffer_exact\<close> is exactly one window of 256 bytes:
  the signature, inode number 0 and an entry count of 1.
\<close>

definition buffer_zero_count :: "byte list" where
  "buffer_zero_count = [0x49, 0x4E] @ replicate 298 0"

definition buffer_exact :: "byte list" where
  "buffer_exact = [0x49, 0x4E] @ replicate 174 0 @ [0x01] @ replicate 79 0"

text \<open>
  An output of the utility of two lines: the first names inode 1, the inode field of the
  second is not a number.
\<close>

definition ncheck_output_bad :: py_str where
  "ncheck_output_bad = ascii ''1 a'' @ [0x0A] @ ascii ''x b''"

section \<open>Properties\<close>

subsection \<open>Classification\<close>

lemma FILE_TYPES_known:
  "(FILE_TYPES k \<noteq> None) = (k \<in> {0x1, 0x2, 0x4, 0x6, 0x8, 0xA, 0xC})"
  by (simp add: FILE_TYPES_def)

lemma if_label_iff: "s \<noteq> t \<Longrightarrow> ((if A \<and> B then s else t) = s) = (B \<and> A)"
  by auto

text \<open>
  C1. A record of the scanned sequence whose inode number is not 128 and whose type code
  is 0x0 is labelled "Probably Deleted File" exactly when its three timestamps are all
  nonzero and the record before it or the record after it in the sequence (where there
  is one) has a type code of the table of known types; in every other case its label is
  "Unknown (0x0)".
\<close>

theorem deleted_heuristic:
  assumes "i < length inodes" and "inode (inodes ! i) \<noteq> 128" and "type_code (inodes ! i) = 0x0"
  shows "((file_type_of inodes i = ''Probably Deleted File'') =
           ((atime (inodes ! i) \<noteq> 0 \<and> mtime (inodes ! i) \<noteq> 0 \<and> ctime (inodes ! i) \<noteq> 0) \<and>
            ((0 < i \<and> type_code (inodes ! (i - 1)) \<in> {0x1, 0x2, 0x4, 0x6, 0x8, 0xA, 0xC}) \<or>
             (i + 1 < length inodes \<and>
              type_code (inodes ! (i + 1)) \<in> {0x1, 0x2, 0x4, 0x6, 0x8, 0xA, 0xC})))) \<and>
         (file_type_of inodes i \<noteq> ''Probably Deleted File'' \<longrightarrow>
          file_type_of inodes i = ''Unknown (0x0)'')"
proof -
  let ?r = "inodes ! i"
  let ?prev = "0 < i \<and> FILE_TYPES (type_code (inodes ! (i - 1))) \<noteq> None"
  let ?next = "i + 1 < length inodes \<and> FILE_TYPES (type_code (inodes ! (i + 1))) \<noteq> None"
  have ft: "file_type_of inodes i =
      (if (?prev \<or> ?next) \<and> has_times ?r then ''Probably Deleted File'' else ''Unknown (0x0)'')"
    using assms(2,3) by (simp add: file_type_of_def Let_def)
  have "(file_type_of inodes i = ''Probably Deleted File'') =
           ((atime (inodes ! i) \<noteq> 0 \<and> mtime (inodes ! i) \<noteq> 0 \<and> ctime (inodes ! i) \<noteq> 0) \<and>
            ((0 < i \<and> type_code (inodes ! (i - 1)) \<in> {0x1, 0x2, 0x4, 0x6, 0x8, 0xA, 0xC}) \<or>
             (i + 1 < length inodes \<and>
              type_code (inodes ! (i + 1)) \<in> {0x1, 0x2, 0x4, 0x6, 0x8, 0xA, 0xC})))"
    unfolding ft FILE_TYPES_known has_times_def by (rule if_label_iff) simp
  moreover have "file_type_of inodes i \<noteq> ''Probably Deleted File'' \<longrightarrow>
      file_type_of inodes i = ''Unknown (0x0)''"
    unfolding ft by simp
  ultimately show ?thesis by blast
qed

theorem deleted_heuristic_witness:
  "file_type_of [\<lparr>inode = 0, type_code = 4, atime = 0, mtime = 0, ctime = 0\<rparr>,
                 \<lparr>inode = 1, type_code = 0, atime = 1, mtime = 2, ctime = 3\<rparr>] 1
     = ''Probably Deleted File'' \<and>
   file_type_of [\<lparr>inode = 0, type_code = 4, atime = 0, mtime = 0, ctime = 0\<rparr>,
                 \<lparr>inode = 1, type_code = 0, atime = 0, mtime = 0, ctime = 0\<rparr>] 1
     = ''Unknown (0x0)''"
  using deleted_heuristic [of 1 "[\<lparr>inode = 0, type_code = 4, atime = 0, mtime = 0, ctime = 0\<rparr>,
                 \<lparr>inode = 1, type_code = 0, atime = 1, mtime = 2, ctime = 3\<rparr>]"]
        deleted_heuristic [of 1 "[\<lparr>inode = 0, type_code = 4, atime = 0, mtime = 0, ctime = 0\<rparr>,
                 \<lparr>inode = 1, type_code = 0, atime = 0, mtime = 0, ctime = 0\<rparr>]"]
  by simp

text \<open>
  C6. A record whose inode number is 128 is labelled "Root Directory", whatever its type
  code and its timestamps are.
\<close>

theorem root_directory_label:
  "i < length inodes \<Longrightarrow> inode (inodes ! i) = 128 \<Longrightarrow> file_type_of inodes i = ''Root Directory''"
  by (simp add: file_type_of_def)

theorem root_directory_label_witness:
  "file_type_of [\<lparr>inode = 128, type_code = 0, atime = 0, mtime = 0, ctime = 0\<rparr>] 0
     = ''Root Directory'' \<and>
   file_type_of [\<lparr>inode = 127, type_code = 8, atime = 5, mtime = 5, ctime = 5\<rparr>,
                 \<lparr>inode = 128, type_code = 8, atime = 1, mtime = 2, ctime = 3\<rparr>] 1
     = ''Root Directory''"
  using root_directory_label [of 0 "[\<lparr>inode = 128, type_code = 0, atime = 0, mtime = 0, ctime = 0\<rparr>]"]
        root_directory_label [of 1 "[\<lparr>inode = 127, type_code = 8, atime = 5, mtime = 5, ctime = 5\<rparr>,
                 \<lparr>inode = 128, type_code = 8, atime = 1, mtime = 2, ctime = 3\<rparr>]"]
  by simp

subsection \<open>Superblock detection\<close>

text \<open>
  C4. The detector answers true exactly when the image has at least four bytes and the
  first four are "XFSB". It answers false for any other prefix and for an image of fewer
  than four bytes; it has no failing branch.
\<close>

theorem detect_xfs_magic_iff:
  "(detect_xfs_magic f = (4 \<le> length f \<and> take 4 f = [0x58, 0x46, 0x53, 0x42])) \<and>
   (length f < 4 \<longrightarrow> \<not> detect_xfs_magic f)"
proof -
  have "4 \<le> length f" if "take 4 f = [0x58, 0x46, 0x53, 0x42]"
  proof -
    have "length (take 4 f) = 4" using that by simp
    then show ?thesis by simp
  qed
  then have "detect_xfs_magic f = (4 \<le> length f \<and> take 4 f = [0x58, 0x46, 0x53, 0x42])"
    by (auto simp add: detect_xfs_magic_def read_at_def XFS_SUPERBLOCK_OFFSET_def
        XFS_SUPERBLOCK_MAGIC_def)
  then show ?thesis by simp
qed

theorem detect_xfs_magic_witness:
  "detect_xfs_magic [0x58, 0x46, 0x53, 0x42, 0x00] \<and> \<not> detect_xfs_magic [0x58, 0x46, 0x53] \<and>
   \<not> detect_xfs_magic [0x58, 0x46, 0x53, 0x41]"
  using detect_xfs_magic_iff [of "[0x58, 0x46, 0x53, 0x42, 0x00]"]
        detect_xfs_magic_iff [of "[0x58, 0x46, 0x53]"]
        detect_xfs_magic_iff [of "[0x58, 0x46, 0x53, 0x41]"]
  by simp

subsection \<open>Inode scan\<close>

lemma length_read_at: "length (read_at f offset n) = min n (length f - offset)"
  by (simp add: read_at_def)

lemma inode_make_inode: "inode (make_inode offset block) = offset div 512"
  by (simp add: make_inode_def Let_def INODE_SIZE_def split: prod.splits)

lemma next_multiple:
  assumes "512 dvd offset" and "offset \<le> o'" and "512 dvd o'" and "o' \<noteq> offset"
  shows "offset + 512 \<le> (o'::nat)"
proof -
  obtain a where a: "offset = 512 * a" using assms(1) by (auto elim: dvdE)
  obtain b where b: "o' = 512 * b" using assms(3) by (auto elim: dvdE)
  have "a < b" using assms(2,4) a b by simp
  then have "a + 1 \<le> b" by simp
  then have "512 * (a + 1) \<le> 512 * b" by (rule mult_le_mono2)
  then show ?thesis using a b by simp
qed

lemma scan_loop_offsets:
  "512 dvd offset \<Longrightarrow>
   \<exists>os. scan_loop f filesize offset inodes
           = inodes @ map (\<lambda>o'. make_inode o' (read_at f o' INODE_SIZE)) os \<and>
        sorted_wrt (<) os \<and>
        set os = {o'. offset \<le> o' \<and> o' < filesize \<and> 512 dvd o' \<and>
                      4 \<le> length (read_at f o' INODE_SIZE) \<and>
                      slice (read_at f o' INODE_SIZE) 0 2 = INODE_MAGIC}"
proof (induction f filesize offset inodes rule: scan_loop.induct)
  case (1 f filesize offset inodes)
  let ?M = "\<lambda>lo. {o'. lo \<le> o' \<and> o' < filesize \<and> 512 dvd o' \<and>
                      4 \<le> length (read_at f o' INODE_SIZE) \<and>
                      slice (read_at f o' INODE_SIZE) 0 2 = INODE_MAGIC}"
  let ?mk = "\<lambda>o'. make_inode o' (read_at f o' INODE_SIZE)"
  let ?block = "read_at f offset INODE_SIZE"
  have nxt: "512 dvd (offset + INODE_SIZE)"
    using "1.prems" by (simp add: INODE_SIZE_def)
  show ?case
  proof (cases "offset < filesize")
    case False
    then have "scan_loop f filesize offset inodes = inodes"
      by (simp add: scan_loop.simps)
    moreover have "?M offset = {}" using False by auto
    ultimately show ?thesis by simp
  next
    case lt: True
    show ?thesis
    proof (cases "length ?block < 4")
      case True
      then have "scan_loop f filesize offset inodes = inodes"
        using lt by (simp add: scan_loop.simps)
      moreover have "?M offset = {}"
      proof -
        have "length (read_at f o' INODE_SIZE) < 4" if "offset \<le> o'" for o'
          using True that by (simp add: length_read_at INODE_SIZE_def)
        then show ?thesis by force
      qed
      ultimately show ?thesis by simp
    next
      case ge4: False
      have split_M: "?M offset = (if slice ?block 0 2 = INODE_MAGIC then {offset} else {}) \<union> ?M (offset + 512)"
      proof -
        have "o' = offset \<or> offset + 512 \<le> o'" if "offset \<le> o'" "512 dvd o'" for o'
          using next_multiple [OF "1.prems" that] by blast
        then show ?thesis using ge4 lt "1.prems" by (auto split: if_splits)
      qed
      show ?thesis
      proof (cases "slice ?block 0 2 = INODE_MAGIC")
        case True
        have unf: "scan_loop f filesize offset inodes =
            scan_loop f filesize (offset + INODE_SIZE) (inodes @ [make_inode offset ?block])"
          using lt ge4 True by (subst scan_loop.simps) (simp add: Let_def)
        from "1.IH"(1) [OF lt refl ge4 True nxt]
        obtain os where os: "scan_loop f filesize (offset + INODE_SIZE) (inodes @ [make_inode offset ?block])
              = (inodes @ [make_inode offset ?block]) @ map ?mk os"
            "sorted_wrt (<) os" "set os = ?M (offset + INODE_SIZE)"
          by blast
        have "scan_loop f filesize offset inodes = inodes @ map ?mk (offset # os)"
          using unf os(1) by simp
        moreover have "sorted_wrt (<) (offset # os)"
          using os(2,3) by (auto simp: INODE_SIZE_def)
        moreover have "set (offset # os) = ?M offset"
          using os(3) True unfolding split_M by (simp add: INODE_SIZE_def)
        ultimately show ?thesis by blast
      next
        case False
        have unf: "scan_loop f filesize offset inodes =
            scan_loop f filesize (offset + INODE_SIZE) inodes"
          using lt ge4 False by (subst scan_loop.simps) (simp add: Let_def)
        from "1.IH"(2) [OF lt refl ge4 False nxt]
        obtain os where os: "scan_loop f filesize (offset + INODE_SIZE) inodes = inodes @ map ?mk os"
            "sorted_wrt (<) os" "set os = ?M (offset + INODE_SIZE)"
          by blast
        have "set os = ?M offset"
          using os(3) False unfolding split_M by (simp add: INODE_SIZE_def)
        then show ?thesis using unf os(1,2) by auto
      qed
    qed
  qed
qed

lemma strict_div_512:
  assumes "512 dvd a" and "512 dvd b" and "a < (b::nat)"
  shows "a div 512 < b div 512"
proof -
  obtain x where x: "a = 512 * x" using assms(1) by (auto elim: dvdE)
  obtain y where y: "b = 512 * y" using assms(2) by (auto elim: dvdE)
  show ?thesis using assms(3) by (simp add: x y)
qed

lemma from_bytes_big_zeros: "from_bytes_big (replicate n 0) = 0"
  by (induction n) (simp_all add: from_bytes_big_def)

lemma scan_image_two: "scan_and_classify_inodes image_two 516 =
   [\<lparr>inode = 0, type_code = 4, atime = 0, mtime = 0, ctime = 0\<rparr>,
    \<lparr>inode = 1, type_code = 8, atime = 0, mtime = 0, ctime = 0\<rparr>]"
  by (simp add: image_two_def scan_and_classify_inodes_def scan_loop.simps read_at_def slice_def
      INODE_SIZE_def INODE_MAGIC_def make_inode_def parse_file_type_def parse_times_def
      unpack_be32_def from_bytes_big_zeros nth_append)

text \<open>
  C5. The records of a scan are the records of the matching windows at a strictly
  ascending list of offsets, each a multiple of 512 inside the scanned range; the inode
  number of each record is its offset divided by 512, so the inode numbers are strictly
  ascending too.
\<close>

theorem scan_records_ascending:
  "\<exists>os. scan_and_classify_inodes f filesize
           = map (\<lambda>o'. make_inode o' (read_at f o' INODE_SIZE)) os \<and>
        map inode (scan_and_classify_inodes f filesize) = map (\<lambda>o'. o' div 512) os \<and>
        sorted_wrt (<) os \<and>
        sorted_wrt (<) (map inode (scan_and_classify_inodes f filesize)) \<and>
        (\<forall>o' \<in> set os. 512 dvd o' \<and> o' < filesize \<and>
                        slice (read_at f o' INODE_SIZE) 0 2 = INODE_MAGIC)"
proof -
  let ?mk = "\<lambda>o'. make_inode o' (read_at f o' INODE_SIZE)"
  have "512 dvd (0::nat)" by simp
  from scan_loop_offsets [OF this, of f filesize "[]"]
  obtain os where os: "scan_and_classify_inodes f filesize = map ?mk os"
      "sorted_wrt (<) os"
      "set os = {o'. 0 \<le> o' \<and> o' < filesize \<and> 512 dvd o' \<and>
                     4 \<le> length (read_at f o' INODE_SIZE) \<and>
                     slice (read_at f o' INODE_SIZE) 0 2 = INODE_MAGIC}"
    by (auto simp: scan_and_classify_inodes_def)
  have nums: "map inode (scan_and_classify_inodes f filesize) = map (\<lambda>o'. o' div 512) os"
    by (simp add: os(1) inode_make_inode)
  have dv: "\<forall>o' \<in> set os. 512 dvd o' \<and> o' < filesize \<and>
                        slice (read_at f o' INODE_SIZE) 0 2 = INODE_MAGIC"
    unfolding os(3) by simp
  have "sorted_wrt (\<lambda>a b. a div 512 < b div 512) os"
    using os(2) dv by (auto intro: sorted_wrt_mono_rel [rotated] strict_div_512)
  then have "sorted_wrt (<) (map inode (scan_and_classify_inodes f filesize))"
    by (simp add: nums sorted_wrt_map)
  then show ?thesis using os(1,2) nums dv by blast
qed

theorem scan_records_ascending_witness:
  "scan_and_classify_inodes image_two 516 \<noteq> [] \<and>
   (\<exists>os. scan_and_classify_inodes image_two 516
           = map (\<lambda>o'. make_inode o' (read_at image_two o' INODE_SIZE)) os \<and>
        map inode (scan_and_classify_inodes image_two 516) = map (\<lambda>o'. o' div 512) os \<and>
        sorted_wrt (<) os \<and>
        sorted_wrt (<) (map inode (scan_and_classify_inodes image_two 516)) \<and>
        (\<forall>o' \<in> set os. 512 dvd o' \<and> o' < 516 \<and>
                        slice (read_at image_two o' INODE_SIZE) 0 2 = INODE_MAGIC))"
  using scan_records_ascending [of image_two 516] by (simp add: scan_image_two)

lemma scan_loop_match:
  assumes "offset < filesize" and "4 \<le> length (read_at f offset INODE_SIZE)"
    and "slice (read_at f offset INODE_SIZE) 0 2 = INODE_MAGIC"
  shows "scan_loop f filesize offset inodes =
         scan_loop f filesize (offset + INODE_SIZE)
           (inodes @ [make_inode offset (read_at f offset INODE_SIZE)])"
  using assms by (subst scan_loop.simps) (simp add: Let_def)

lemma parse_times_zero:
  assumes "unpack_be32 (slice block 32 36) = None \<or> unpack_be32 (slice block 40 44) = None \<or>
           unpack_be32 (slice block 48 52) = None"
  shows "parse_times block = (0, 0, 0)"
  using assms by (auto simp: parse_times_def split: option.splits)

text \<open>
  C7. For a matched window in which one of the three timestamp fields cannot be unpacked
  from the bytes available, all three timestamps of the record are 0, also one whose
  field is complete, and the loop goes on to the next offset with that record appended.
\<close>

theorem timestamp_failure_zeroes_all:
  assumes "offset < filesize"
    and "block = read_at f offset INODE_SIZE"
    and "4 \<le> length block"
    and "slice block 0 2 = INODE_MAGIC"
    and "unpack_be32 (slice block 32 36) = None \<or> unpack_be32 (slice block 40 44) = None \<or>
         unpack_be32 (slice block 48 52) = None"
  shows "parse_times block = (0, 0, 0) \<and>
         scan_loop f filesize offset inodes =
           scan_loop f filesize (offset + INODE_SIZE)
             (inodes @ [\<lparr>inode = offset div 512, type_code = parse_file_type (block ! 2),
                         atime = 0, mtime = 0, ctime = 0\<rparr>])"
proof -
  have z: "parse_times block = (0, 0, 0)" using assms(5) by (rule parse_times_zero)
  have "make_inode offset block = \<lparr>inode = offset div 512, type_code = parse_file_type (block ! 2),
                         atime = 0, mtime = 0, ctime = 0\<rparr>"
    by (simp add: make_inode_def Let_def z INODE_SIZE_def)
  then show ?thesis
    using z scan_loop_match [of offset filesize f inodes] assms(1-4) by simp
qed

theorem timestamp_failure_zeroes_all_witness:
  "unpack_be32 (slice image_short 32 36) = Some 7 \<and>
   unpack_be32 (slice image_short 40 44) = None \<and>
   parse_times image_short = (0, 0, 0) \<and>
   scan_loop image_short 40 0 [] =
     [\<lparr>inode = 0, type_code = 8, atime = 0, mtime = 0, ctime = 0\<rparr>]"
  using timestamp_failure_zeroes_all [of 0 40 image_short image_short "[]"]
  by (simp add: image_short_def read_at_def slice_def INODE_SIZE_def INODE_MAGIC_def
      unpack_be32_def from_bytes_big_def parse_file_type_def nth_append scan_loop.simps)

lemma final_offset_less:
  assumes "\<not> 512 dvd (n::nat)" shows "512 * (n div 512) < n"
proof -
  have "n = 512 * (n div 512) + n mod 512" by simp
  moreover have "n mod 512 \<noteq> 0" using assms by (simp add: dvd_eq_mod_eq_0)
  ultimately show ?thesis by linarith
qed

text \<open>
  C10. When the length of the image is not a multiple of 512, the final window starts at
  the last multiple of 512 and holds the remaining bytes. If it has at least four bytes
  and begins with the signature, the scan of the whole image has its record, numbered by
  that offset, with all three timestamps 0 when the window is shorter than the 52 bytes
  the timestamp fields need. A final fragment of fewer than four bytes gives no record.
\<close>

theorem partial_final_window:
  assumes "\<not> 512 dvd length f"
  shows "let o' = 512 * (length f div 512); w = read_at f o' INODE_SIZE in
     length w = length f mod 512 \<and>
     (4 \<le> length w \<and> slice w 0 2 = INODE_MAGIC \<longrightarrow>
        make_inode o' w \<in> set (scan_and_classify_inodes f (length f)) \<and>
        inode (make_inode o' w) = length f div 512 \<and>
        (length w < 52 \<longrightarrow>
           atime (make_inode o' w) = 0 \<and> mtime (make_inode o' w) = 0 \<and> ctime (make_inode o' w) = 0)) \<and>
     (length w < 4 \<longrightarrow>
        (\<forall>r \<in> set (scan_and_classify_inodes f (length f)). inode r \<noteq> length f div 512))"
proof -
  define o' where "o' = 512 * (length f div 512)"
  define w where "w = read_at f o' INODE_SIZE"
  let ?mk = "\<lambda>x. make_inode x (read_at f x INODE_SIZE)"
  have lt: "o' < length f" unfolding o'_def using assms by (rule final_offset_less)
  have dv: "512 dvd o'" by (simp add: o'_def)
  have len: "length w = length f mod 512"
  proof -
    have "length f - o' = length f mod 512"
      unfolding o'_def by (simp add: minus_mult_div_eq_mod)
    moreover have "length f mod 512 < 512" by simp
    ultimately show ?thesis by (simp add: w_def length_read_at INODE_SIZE_def)
  qed
  have "512 dvd (0::nat)" by simp
  from scan_loop_offsets [OF this, of f "length f" "[]"]
  obtain os where os: "scan_and_classify_inodes f (length f) = map ?mk os"
      "set os = {x. 0 \<le> x \<and> x < length f \<and> 512 dvd x \<and>
                     4 \<le> length (read_at f x INODE_SIZE) \<and>
                     slice (read_at f x INODE_SIZE) 0 2 = INODE_MAGIC}"
    by (auto simp: scan_and_classify_inodes_def)
  have emitted: "make_inode o' w \<in> set (scan_and_classify_inodes f (length f))"
    if "4 \<le> length w" "slice w 0 2 = INODE_MAGIC"
  proof -
    have "o' \<in> set os" using that lt dv by (simp add: os(2) w_def)
    then show ?thesis by (auto simp: os(1) w_def)
  qed
  have num: "inode (make_inode o' w) = length f div 512"
    by (simp add: inode_make_inode o'_def)
  have zero: "atime (make_inode o' w) = 0 \<and> mtime (make_inode o' w) = 0 \<and> ctime (make_inode o' w) = 0"
    if "length w < 52"
  proof -
    have "length (slice w 48 52) \<noteq> 4" using that by (simp add: slice_def)
    then have "unpack_be32 (slice w 48 52) = None" by (simp add: unpack_be32_def)
    then have "parse_times w = (0, 0, 0)" by (simp add: parse_times_zero)
    then show ?thesis by (simp add: make_inode_def Let_def)
  qed
  have dropped: "inode r \<noteq> length f div 512"
    if short: "length w < 4" and r: "r \<in> set (scan_and_classify_inodes f (length f))" for r
  proof
    assume eq: "inode r = length f div 512"
    from r obtain x where x: "x \<in> set os" "r = ?mk x" by (auto simp: os(1))
    from x(1) have xd: "512 dvd x" and x4: "4 \<le> length (read_at f x INODE_SIZE)"
      by (simp_all add: os(2))
    have "x div 512 = length f div 512" using eq x(2) by (simp add: inode_make_inode)
    then have "x = o'" using xd by (auto simp: o'_def elim: dvdE)
    then show False using x4 short by (simp add: w_def)
  qed
  show ?thesis
    unfolding Let_def o'_def [symmetric] w_def [symmetric]
    using len emitted num zero dropped by blast
qed

theorem partial_final_window_witness:
  "\<not> 512 dvd length image_two \<and>
   read_at image_two 512 INODE_SIZE = [0x49, 0x4E, 0x80, 0x00] \<and>
   \<lparr>inode = 1, type_code = 8, atime = 0, mtime = 0, ctime = 0\<rparr>
      \<in> set (scan_and_classify_inodes image_two (length image_two)) \<and>
   \<not> 512 dvd length image_tiny_tail \<and>
   1 \<notin> inode ` set (scan_and_classify_inodes image_tiny_tail (length image_tiny_tail))"
  using partial_final_window [of image_two] partial_final_window [of image_tiny_tail]
  by (auto simp add: image_two_def image_tiny_tail_def Let_def read_at_def slice_def INODE_SIZE_def
      INODE_MAGIC_def make_inode_def parse_file_type_def parse_times_def unpack_be32_def)

subsection \<open>Short-form directory scan\<close>

lemma length_slice: "length (slice b i j) = min (j - i) (length b - i)"
  by (simp add: slice_def)

lemma nth_slice: "k < j - i \<Longrightarrow> i + k < length b \<Longrightarrow> slice b i j ! k = b ! (i + k)"
  by (simp add: slice_def)

lemma slice_signature_window:
  assumes "slice data offset (offset + 2) = [0x49, 0x4E]"
  shows "slice (slice data offset (offset + 256)) 0 2 = [0x49, 0x4E]"
  using assms by (simp add: slice_def take_take min_def)


lemma slice_slice:
  "i' \<le> j' \<Longrightarrow> j' \<le> j - i \<Longrightarrow> slice (slice b i j) i' j' = slice b (i + i') (i + j')"
  by (simp add: slice_def drop_take min_def add.commute)

text \<open>
  C2, as amended. Inside the loop, whenever the two bytes at the cursor are the signature
  "IN", the cursor advances by exactly 256 bytes: both when the window validates, and its
  record is printed, and when it fails validation, which inside the loop happens exactly
  when the entry-count byte at window offset 176 is 0, and nothing is printed. The
  advance of 16 bytes is used only when the two bytes at the cursor are not the
  signature.
\<close>

theorem shortform_step_advance:
  assumes "int offset < int (length data) - 256"
  shows "(slice data offset (offset + 2) = [0x49, 0x4E] \<longrightarrow>
            fst (shortform_step data (offset, found, out)) = offset + 256 \<and>
            ((parse_shortform_inode data offset = None) = (data ! (offset + 176) = 0)) \<and>
            (parse_shortform_inode data offset = None \<longrightarrow>
               shortform_step data (offset, found, out) = (offset + 256, found, out)) \<and>
            (data ! (offset + 176) \<noteq> 0 \<longrightarrow>
               shortform_step data (offset, found, out) =
                 (offset + 256, found + 1,
                  out @ [Print_sf_inode (from_bytes_big (slice data (offset + 152) (offset + 160))),
                         Print_sf_offset offset,
                         Print_sf_entries (unat (data ! (offset + 176)))]))) \<and>
         (slice data offset (offset + 2) \<noteq> [0x49, 0x4E] \<longrightarrow>
            shortform_step data (offset, found, out) = (offset + 16, found, out))"
proof -
  let ?w = "slice data offset (offset + 256)"
  have len: "length ?w = 256" using assms by (simp add: length_slice)
  have b176: "?w ! 176 = data ! (offset + 176)" using assms by (simp add: nth_slice)
  have num: "slice ?w 152 160 = slice data (offset + 152) (offset + 160)"
    by (simp add: slice_slice)
  have parse: "parse_shortform_inode data offset =
      (if data ! (offset + 176) = 0 then None
       else Some \<lparr>inode_number = from_bytes_big (slice data (offset + 152) (offset + 160)),
                  sf_offset = offset, entry_count = unat (data ! (offset + 176))\<rparr>)"
    if "slice data offset (offset + 2) = [0x49, 0x4E]"
    using slice_signature_window [OF that] len
    by (simp add: parse_shortform_inode_def Let_def b176 num unat_eq_0)
  show ?thesis
    by (auto simp: shortform_step_def parse)
qed

theorem shortform_step_advance_witness:
  "int 0 < int (length buffer_zero_count) - 256 \<and>
   slice buffer_zero_count 0 2 = [0x49, 0x4E] \<and>
   buffer_zero_count ! 176 = 0 \<and>
   shortform_step buffer_zero_count (0, 0, [Print_sf_scanning]) = (256, 0, [Print_sf_scanning])"
  using shortform_step_advance [of 0 buffer_zero_count 0 "[Print_sf_scanning]"]
  by (simp add: buffer_zero_count_def slice_def nth_append)

text \<open>
  C2, as stated, fails: in \<open>buffer_zero_count\<close> the signature is at the cursor, the window
  fails validation for its entry count of 0, and the cursor moves to 256, not to 16.
\<close>

theorem shortform_failed_window_counterexample:
  "slice buffer_zero_count 0 2 = [0x49, 0x4E] \<and>
   int 0 < int (length buffer_zero_count) - 256 \<and>
   parse_shortform_inode buffer_zero_count 0 = None \<and>
   fst (shortform_step buffer_zero_count (0, 0, [Print_sf_scanning])) = 256 \<and>
   fst (shortform_step buffer_zero_count (0, 0, [Print_sf_scanning])) \<noteq> 0 + 16"
  by (simp add: buffer_zero_count_def shortform_step_def parse_shortform_inode_def slice_def
      nth_append)

lemma scan_shortform_loop_stop:
  "\<not> int (fst st) < int (length data) - 256 \<Longrightarrow> scan_shortform_loop data st = st"
  by (subst scan_shortform_loop.simps) simp

lemma scan_shortform_loop_step:
  "int (fst st) < int (length data) - 256 \<Longrightarrow>
   scan_shortform_loop data st = scan_shortform_loop data (shortform_step data st)"
  by (subst scan_shortform_loop.simps) simp

text \<open>
  C3. The loop guard \<open>offset < len(data) - 256\<close> stops the scan when 256 bytes or fewer
  remain past the cursor. The window of \<open>buffer_exact\<close> at offset 0, which is the buffer
  length minus 256, is valid for \<open>parse_shortform_inode\<close>, whose own length test accepts
  a window of exactly 256 bytes, but the scan prints no record for it. With one more
  byte after the window the same record is printed.
\<close>

theorem shortform_last_window_missed:
  "length buffer_exact = 256 \<and>
   parse_shortform_inode buffer_exact 0 =
     Some \<lparr>inode_number = 0, sf_offset = 0, entry_count = 1\<rparr> \<and>
   scan_shortform_inodes buffer_exact = [Print_sf_scanning, Print_sf_none] \<and>
   scan_shortform_inodes (buffer_exact @ [0x00]) =
     [Print_sf_scanning, Print_sf_inode 0, Print_sf_offset 0, Print_sf_entries 1]"
proof -
  have len: "length buffer_exact = 256" by (simp add: buffer_exact_def)
  have parse: "parse_shortform_inode buffer_exact 0 =
     Some \<lparr>inode_number = 0, sf_offset = 0, entry_count = 1\<rparr>"
    by (simp add: buffer_exact_def parse_shortform_inode_def slice_def nth_append
        from_bytes_big_zeros)
  have "scan_shortform_loop buffer_exact (0, 0, [Print_sf_scanning]) = (0, 0, [Print_sf_scanning])"
    by (rule scan_shortform_loop_stop) (simp add: len)
  then have missed: "scan_shortform_inodes buffer_exact = [Print_sf_scanning, Print_sf_none]"
    by (simp add: scan_shortform_inodes_def)
  have step: "shortform_step (buffer_exact @ [0x00]) (0, 0, [Print_sf_scanning]) =
      (256, 1, [Print_sf_scanning, Print_sf_inode 0, Print_sf_offset 0, Print_sf_entries 1])"
    by (simp add: buffer_exact_def shortform_step_def parse_shortform_inode_def slice_def
        nth_append from_bytes_big_zeros)
  have "scan_shortform_loop (buffer_exact @ [0x00]) (0, 0, [Print_sf_scanning]) =
      scan_shortform_loop (buffer_exact @ [0x00])
        (256, 1, [Print_sf_scanning, Print_sf_inode 0, Print_sf_offset 0, Print_sf_entries 1])"
    by (subst scan_shortform_loop_step) (simp_all add: len step)
  also have "\<dots> = (256, 1, [Print_sf_scanning, Print_sf_inode 0, Print_sf_offset 0, Print_sf_entries 1])"
    by (rule scan_shortform_loop_stop) (simp add: len)
  finally have "scan_shortform_inodes (buffer_exact @ [0x00]) =
     [Print_sf_scanning, Print_sf_inode 0, Print_sf_offset 0, Print_sf_entries 1]"
    by (simp add: scan_shortform_inodes_def)
  then show ?thesis using len parse missed by simp
qed

subsection \<open>Name resolution\<close>

lemma ncheck_loop_append:
  "ncheck_loop (pre @ rest) name_map =
     (case ncheck_loop pre name_map of
        (m, None) \<Rightarrow> ncheck_loop rest m
      | (m, Some e) \<Rightarrow> (m, Some e))"
  by (induction pre arbitrary: name_map) (auto simp: Let_def split: option.splits)

lemmas py_text_defs = ascii_def py_split1_def py_int_def py_strip_def py_isspace_def to_ascii_def
  c_isspace_def valid_digits_def is_digit_def digits_value_def int_max_str_digits_def

text \<open>
  The builtins on text that is not plain ASCII digits and spaces. A no-break space
  before the inode field is stripped with the line, so the line is read and nothing is
  printed. \<open>int\<close> reads the decimal digits of other scripts and drops Unicode whitespace
  around them, but the separator 0x1C, which \<open>strip\<close> removes, is not whitespace for it.
  A literal of more than 4300 digits is refused.
\<close>

lemma ncheck_unicode_space_line:
  "parse_xfs_ncheck (Inr (ascii ''7 g'' @ [0x0A, 0xA0] @ ascii ''1 b'')) =
     (Map.empty(7 \<mapsto> ascii ''g'', 1 \<mapsto> ascii ''b''), [])"
  by (simp add: parse_xfs_ncheck_def py_text_defs)

lemma py_int_unicode_digits: "py_int [0xA0, 0x661, 0xFF12, 0x85] = Some 12"
  by (simp add: py_text_defs py_todecimal_def DECIMAL_RUNS_def)

lemma py_int_separator: "py_int [0x1C, 0x31] = None \<and> py_strip [0x1C, 0x31] = [0x31]"
  by (simp add: py_text_defs)

lemma py_int_digit_limit:
  "int_max_str_digits < n \<Longrightarrow> py_int (replicate n 0x30) = None"
  by (cases n)
     (simp_all add: py_int_def to_ascii_def c_isspace_def is_digit_def valid_digits_def
        dropWhile_replicate takeWhile_replicate)

text \<open>
  C9, as amended. A failing invocation prints one warning and returns a dictionary; it
  never ends the run. When the utility cannot be run, exits with a non-zero status or its
  output cannot be decoded, the dictionary is empty. When the inode field of a line is
  not an integer, the dictionary holds the entries of the lines read before that line.
\<close>

theorem ncheck_failure_mapping:
  "parse_xfs_ncheck (Inl e) = (Map.empty, [Print_warning e]) \<and>
   (split_on 0x0A (py_strip output) = pre @ bad # post \<and>
    ncheck_loop pre Map.empty = (m, None) \<and>
    py_split1 (py_strip bad) = [tok, rest] \<and>
    py_int tok = None
    \<longrightarrow> parse_xfs_ncheck (Inr output) = (m, [Print_warning (ValueError tok)]))"
  by (simp add: parse_xfs_ncheck_def ncheck_loop_append Let_def)

theorem ncheck_failure_mapping_witness:
  "parse_xfs_ncheck (Inl (FileNotFoundError ''xfs_ncheck'')) =
     (Map.empty, [Print_warning (FileNotFoundError ''xfs_ncheck'')]) \<and>
   parse_xfs_ncheck (Inr ncheck_output_bad) =
     (Map.empty(1 \<mapsto> ascii ''a''), [Print_warning (ValueError (ascii ''x''))])"
  using ncheck_failure_mapping [of "FileNotFoundError ''xfs_ncheck''" ncheck_output_bad
      "[ascii ''1 a'']" "ascii ''x b''" "[]" "Map.empty(1 \<mapsto> ascii ''a'')" "ascii ''x''" "ascii ''b''"]
  by (simp add: ncheck_output_bad_def py_text_defs)

text \<open>
  C9, as stated, fails: on \<open>ncheck_output_bad\<close> the second line raises in \<open>int\<close>, the
  warning is printed, and the dictionary returned still maps inode 1 to its name.
\<close>

theorem ncheck_partial_mapping_counterexample:
  "snd (parse_xfs_ncheck (Inr ncheck_output_bad)) = [Print_warning (ValueError (ascii ''x''))] \<and>
   fst (parse_xfs_ncheck (Inr ncheck_output_bad)) 1 = Some (ascii ''a'') \<and>
   fst (parse_xfs_ncheck (Inr ncheck_output_bad)) \<noteq> Map.empty"
proof -
  have r: "parse_xfs_ncheck (Inr ncheck_output_bad) =
     (Map.empty(1 \<mapsto> ascii ''a''), [Print_warning (ValueError (ascii ''x''))])"
    by (simp add: parse_xfs_ncheck_def ncheck_output_bad_def py_text_defs)
  show ?thesis unfolding r by simp
qed

subsection \<open>Fatal input and output errors\<close>

text \<open>
  C8, as amended. With at most one mode flag, when the image cannot be opened the run
  prints a single diagnostic and nothing else; when it opens and cannot be read, the
  diagnostic follows the one line printed before the first read. No report is printed,
  and the exit status is 0: \<open>main\<close> catches the exception and returns.
\<close>

theorem open_failure_exit_status:
  "(of_bool allocated + of_bool deleted + of_bool shortform :: nat) \<le> 1 \<Longrightarrow>
   run (Open_fails e) ncheck image_path allocated deleted shortform = ([Print_error e], 0) \<and>
   run (Read_fails e) ncheck image_path allocated deleted shortform =
     ([Print_checking image_path, Print_error e], 0)"
  by (simp add: run_def main_def)

theorem open_failure_exit_status_witness:
  "run (Open_fails (FileNotFoundError ''image.img'')) (Inr []) ''image.img'' False False False =
     ([Print_error (FileNotFoundError ''image.img'')], 0) \<and>
   run (Read_fails (OSError ''Input/output error'')) (Inr []) ''image.img'' True False False =
     ([Print_checking ''image.img'', Print_error (OSError ''Input/output error'')], 0)"
  using open_failure_exit_status [of False False False "FileNotFoundError ''image.img''" "Inr []" "''image.img''"]
        open_failure_exit_status [of True False False "OSError ''Input/output error''" "Inr []" "''image.img''"]
  by simp

text \<open>
  C8, as stated, fails: for an image that cannot be opened the exit status is 0.
\<close>

theorem open_failure_exit_zero_counterexample:
  "snd (run (Open_fails (FileNotFoundError ''image.img'')) (Inr []) ''image.img'' False False False) = 0"
  by (simp add: run_def)

end
